theory Spec2Isabelle
  imports Main
begin

section \<open>Values, dictionaries and Python exceptions\<close>

text \<open>
  Values that flow through the parsers are JSON-like: the VK API answers with JSON, the
  Telegram client with integers, strings and \<open>None\<close>, and each normalised post is a Python
  dict from a column name to such a value. A Python \<open>str\<close> is modelled by its UTF-8 bytes,
  so the Cyrillic literals of the source appear as byte sequences and a length counts
  bytes. JSON numbers are taken to be integers.
\<close>

datatype json =
    JNull
  | JBool bool
  | JInt int
  | JStr string
  | JArr "json list"
  | JObj "(string \<times> json) list"

text \<open>
  The column names of the normalised dicts. The source's keys are Cyrillic; each constructor
  is the Latin transliteration of one key, in the order in which the keys first appear in
  \<open>_get_row_from_post\<close>: group, channel, post (the identity column), text of the original
  post, text of the post, date-time, likes, reposts, comments, views, text of the repost,
  link to the original post, link in the post, reactions, number of reposts, number of
  subscribers.
\<close>

datatype key =
    Gruppa
  | Kanal
  | Post
  | Tekst_originalnogo_posta
  | Tekst_posta
  | Data_vremya
  | Layki
  | Reposty
  | Kommentarii
  | Prosmotry
  | Tekst_reposta
  | Ssylka_na_originalnyy_post
  | Ssylka_v_poste
  | Reaktsii
  | Kolichestvo_repostov
  | Kolichestvo_podpischikov

text \<open>A normalised post: a dict literal, kept as an association list in insertion order.\<close>

type_synonym post = "(key \<times> json) list"

datatype error =
    KeyError
  | IndexError
  | TypeError
  | AttributeError
  | ValueError
  | RequestError
  | SystemExit

text \<open>\<open>post[k]\<close>: a missing key raises \<open>KeyError\<close>.\<close>

definition getitem :: "post \<Rightarrow> key \<Rightarrow> error + json" where
  "getitem post k = (case map_of post k of None \<Rightarrow> Inl KeyError | Some v \<Rightarrow> Inr v)"


text \<open>
  \<open>v in existing_posts\<close> for a list of strings read from the sheet: Python compares with
  \<open>==\<close>, and only a string is equal to a string.
\<close>

fun is_in :: "json \<Rightarrow> string list \<Rightarrow> bool" where
  "is_in (JStr s) xs = (s \<in> set xs)"
| "is_in _ xs = False"


section \<open>The spreadsheet service\<close>


datatype get_response =
    Raises
  | Response "string list list option"






section \<open>BaseParser\<close>





text \<open>
  \<open>_get_existing_posts\<close>: the first cell of every row of the identity column. An empty
  row makes \<open>item[0]\<close> raise, and every exception is caught and answered by the empty
  list.
\<close>

fun first_cells :: "string list list \<Rightarrow> error + string list" where
  "first_cells [] = Inr []"
| "first_cells (item # items) =
     (case item of
        [] \<Rightarrow> Inl IndexError
      | c # _ \<Rightarrow> (case first_cells items of Inl e \<Rightarrow> Inl e | Inr cs \<Rightarrow> Inr (c # cs)))"

definition existing_of_response :: "get_response \<Rightarrow> string list" where
  "existing_of_response r =
     (case r of
        Raises \<Rightarrow> []
      | Response None \<Rightarrow> []
      | Response (Some existing_posts) \<Rightarrow>
          (if existing_posts = [] then []
           else case first_cells existing_posts of Inl e \<Rightarrow> [] | Inr cs \<Rightarrow> cs))"






text \<open>The partition loop of \<open>run_google_upsert\<close>, with its two accumulators.\<close>

fun split_posts ::
  "string list \<Rightarrow> post list \<Rightarrow> post list \<Rightarrow> post list \<Rightarrow> error + (post list \<times> post list)" where
  "split_posts existing_posts [] rows_to_update rows_to_insert =
     Inr (rows_to_update, rows_to_insert)"
| "split_posts existing_posts (post # posts_info_list) rows_to_update rows_to_insert =
     (case getitem post Post of
        Inl e \<Rightarrow> Inl e
      | Inr v \<Rightarrow>
          (if is_in v existing_posts
           then split_posts existing_posts posts_info_list (rows_to_update @ [post]) rows_to_insert
           else split_posts existing_posts posts_info_list rows_to_update (rows_to_insert @ [post])))"


text \<open>
  The identity of a post occurs in the list of existing identities: the test of the
  partition loop, read off a post.
\<close>

definition identity_in :: "post \<Rightarrow> string list \<Rightarrow> bool" where
  "identity_in post existing_posts =
     (case map_of post Post of None \<Rightarrow> False | Some v \<Rightarrow> is_in v existing_posts)"

section \<open>Python built-ins used by the normalisers\<close>

text \<open>Truth value of a JSON value, as \<open>if v:\<close> tests it.\<close>

fun truthy :: "json \<Rightarrow> bool" where
  "truthy JNull = False"
| "truthy (JBool b) = b"
| "truthy (JInt i) = (i \<noteq> 0)"
| "truthy (JStr s) = (s \<noteq> [])"
| "truthy (JArr xs) = (xs \<noteq> [])"
| "truthy (JObj kvs) = (kvs \<noteq> [])"

text \<open>\<open>sep.join(xs)\<close>.\<close>

fun join :: "string \<Rightarrow> string list \<Rightarrow> string" where
  "join sep [] = []"
| "join sep [x] = x"
| "join sep (x # y # ys) = x @ sep @ join sep (y # ys)"

text \<open>\<open>str(n)\<close> of an integer: its decimal digits, with a sign when negative.\<close>

function digits :: "nat \<Rightarrow> string" where
  "digits n = (if n < 10 then [''0123456789'' ! n] else digits (n div 10) @ [''0123456789'' ! (n mod 10)])"
  by pat_completeness auto
termination
  by (relation "measure (\<lambda>n. n)") auto

declare digits.simps [simp del]

definition str_int :: "int \<Rightarrow> string" where
  "str_int i = (if i < 0 then CHR ''-'' # digits (nat (- i)) else digits (nat i))"

text \<open>An optional value inside an f-string: \<open>None\<close> is printed as the word.\<close>

definition format_str :: "string option \<Rightarrow> string" where
  "format_str v = (case v of None \<Rightarrow> ''None'' | Some s \<Rightarrow> s)"

definition format_int :: "int option \<Rightarrow> string" where
  "format_int v = (case v of None \<Rightarrow> ''None'' | Some i \<Rightarrow> str_int i)"

definition json_of_str :: "string option \<Rightarrow> json" where
  "json_of_str v = (case v of None \<Rightarrow> JNull | Some s \<Rightarrow> JStr s)"

definition json_of_int :: "int option \<Rightarrow> json" where
  "json_of_int v = (case v of None \<Rightarrow> JNull | Some i \<Rightarrow> JInt i)"

text \<open>
  What the parsers report: the \<open>print\<close> of the Telegram loops, which names the channel
  link; the \<open>logger.error\<close> of \<open>_get_vk_wall\<close>, which names nothing; and the
  \<open>logger.error\<close> of the VK post loop, which names the post.
\<close>

datatype report =
    Printed_channel_error string
  | Logged_wall_error
  | Logged_post_error string

section \<open>The Telegram link pattern\<close>

text \<open>
  \<open>tg_links_pattern\<close> has two alternatives, tried in this order at every position: a URL
  \<open>https?://\S+\<close> that follows \<open>](\<close> and is followed by \<open>)\<close>, and a bare URL
  \<open>https?://\S+\<close>. The matcher below follows the backtracking search of \<open>re\<close>: the
  quantifiers are greedy and give characters back until the rest of the alternative
  matches.
\<close>

text \<open>A literal at the start of the text: the rest of the text after it.\<close>

fun literal :: "string \<Rightarrow> string \<Rightarrow> string option" where
  "literal [] s = Some s"
| "literal (p # ps) [] = None"
| "literal (p # ps) (c # cs) = (if p = c then literal ps cs else None)"

text \<open>
  The characters that \<open>\s\<close> matches in a \<open>str\<close> pattern, each by its UTF-8 bytes: the
  ASCII ones (U+0009 to U+000D, U+001C to U+0020), then U+0085, U+00A0, U+1680, U+2000 to
  U+200A, U+2028, U+2029, U+202F, U+205F and U+3000.
\<close>

definition white_space :: "string list" where
  "white_space =
     [[CHR 0x09], [CHR 0x0A], [CHR 0x0B], [CHR 0x0C], [CHR 0x0D],
      [CHR 0x1C], [CHR 0x1D], [CHR 0x1E], [CHR 0x1F], [CHR 0x20],
      [CHR 0xC2, CHR 0x85], [CHR 0xC2, CHR 0xA0], [CHR 0xE1, CHR 0x9A, CHR 0x80],
      [CHR 0xE2, CHR 0x80, CHR 0x80], [CHR 0xE2, CHR 0x80, CHR 0x81],
      [CHR 0xE2, CHR 0x80, CHR 0x82], [CHR 0xE2, CHR 0x80, CHR 0x83],
      [CHR 0xE2, CHR 0x80, CHR 0x84], [CHR 0xE2, CHR 0x80, CHR 0x85],
      [CHR 0xE2, CHR 0x80, CHR 0x86], [CHR 0xE2, CHR 0x80, CHR 0x87],
      [CHR 0xE2, CHR 0x80, CHR 0x88], [CHR 0xE2, CHR 0x80, CHR 0x89],
      [CHR 0xE2, CHR 0x80, CHR 0x8A], [CHR 0xE2, CHR 0x80, CHR 0xA8],
      [CHR 0xE2, CHR 0x80, CHR 0xA9], [CHR 0xE2, CHR 0x80, CHR 0xAF],
      [CHR 0xE2, CHR 0x81, CHR 0x9F], [CHR 0xE3, CHR 0x80, CHR 0x80]]"

text \<open>
  The text starts with a white space character. In UTF-8 text the bytes of a character
  occur only where that character stands, so the test is right at every byte.
\<close>

definition is_space :: "string \<Rightarrow> bool" where
  "is_space s \<longleftrightarrow> (\<exists>w \<in> set white_space. literal w s \<noteq> None)"

text \<open>
  \<open>https?://\<close>: the optional \<open>s\<close> is tried first, and given back when \<open>://\<close> does not
  follow it.
\<close>

definition scheme :: "string \<Rightarrow> string option" where
  "scheme s =
     (case literal ''http'' s of
        None \<Rightarrow> None
      | Some r \<Rightarrow>
          (case (case literal ''s'' r of None \<Rightarrow> None | Some r' \<Rightarrow> literal ''://'' r') of
             Some r'' \<Rightarrow> Some r''
           | None \<Rightarrow> literal ''://'' r))"

text \<open>
  \<open>\S+\<close> at the end of the pattern: the number of bytes of the longest run of
  characters that are not white space.
\<close>

fun nonspace_run :: "string \<Rightarrow> nat" where
  "nonspace_run [] = 0"
| "nonspace_run (c # cs) = (if is_space (c # cs) then 0 else Suc (nonspace_run cs))"

text \<open>
  \<open>\S+(?=\))\<close>: the greatest \<open>k \<ge> 1\<close> such that no white space character starts in the
  first \<open>k\<close> bytes and the next one is the closing parenthesis.
\<close>

fun nonspace_before_paren :: "string \<Rightarrow> nat option" where
  "nonspace_before_paren [] = None"
| "nonspace_before_paren (c # cs) =
     (if is_space (c # cs) then None
      else case nonspace_before_paren cs of
             Some k \<Rightarrow> Some (Suc k)
           | None \<Rightarrow> (case cs of [] \<Rightarrow> None | d # _ \<Rightarrow> if d = CHR '')'' then Some 1 else None))"

text \<open>
  One attempt at a position: \<open>before\<close> is the text to the left of the position, nearest
  character first, \<open>s\<close> the text from the position on. The result is the length of the
  match.
\<close>

definition markdown_url :: "string \<Rightarrow> string \<Rightarrow> nat option" where
  "markdown_url before s =
     (if take 2 before = ''(]'' then
        (case scheme s of
           None \<Rightarrow> None
         | Some r \<Rightarrow>
             (case nonspace_before_paren r of
                None \<Rightarrow> None
              | Some k \<Rightarrow> Some (length s - length r + k)))
      else None)"

definition bare_url :: "string \<Rightarrow> nat option" where
  "bare_url s =
     (case scheme s of
        None \<Rightarrow> None
      | Some r \<Rightarrow> (if 1 \<le> nonspace_run r then Some (length s - length r + nonspace_run r) else None))"

definition tg_links_pattern :: "string \<Rightarrow> string \<Rightarrow> nat option" where
  "tg_links_pattern before s =
     (case markdown_url before s of Some m \<Rightarrow> Some m | None \<Rightarrow> bare_url s)"

text \<open>
  \<open>re.findall\<close> with this pattern: the matches from left to right, none overlapping. A
  match has at least eight characters, so it starts with the character at the position
  and the search goes on after its end.
\<close>

fun findall :: "string \<Rightarrow> string \<Rightarrow> string list" where
  "findall before [] = []"
| "findall before (c # cs) =
     (case tg_links_pattern before (c # cs) of
        None \<Rightarrow> findall (c # before) cs
      | Some m \<Rightarrow>
          (c # take (m - 1) cs) # findall (rev (take (m - 1) cs) @ c # before) (drop (m - 1) cs))"

section \<open>TgPostsParser and TgChannelParser\<close>

text \<open>
  The Telegram objects, reduced to the attributes the parser reads. An absent object is
  \<open>None\<close>. \<open>reactions\<close> holds the counts of \<open>reactions.results\<close>, \<open>replies\<close> the number
  \<open>replies.replies\<close>, \<open>from_id_channel_id\<close> the attribute chain \<open>from_id.channel_id\<close>
  (none when the chain raises), \<open>message_date\<close> the date already formatted by \<open>strftime\<close>.
\<close>

record tg_forward =
  is_channel :: bool
  from_id_channel_id :: "int option"
  channel_post :: "int option"
  from_name :: "string option"

record tg_message =
  is_service :: bool
  grouped_id :: "int option"
  reactions :: "int list option"
  replies :: "int option"
  forward :: "tg_forward option"
  message_text :: "string option"
  message_id :: int
  message_date :: "string option"
  views :: "int option"
  forwards :: "int option"

record tg_entity =
  username :: "string option"

datatype entity_ref =
    By_link string
  | By_id int

text \<open>The client's calls; a call that raises answers \<open>None\<close>.\<close>

record tg_client =
  get_entity :: "entity_ref \<Rightarrow> tg_entity option"
  get_messages :: "tg_entity \<Rightarrow> tg_message list option"
  get_full_channel :: "string \<Rightarrow> json option"

text \<open>
  The placeholder prefix of a forward from a non-channel source: the UTF-8 bytes of the
  source's Cyrillic literal, two words followed by a space, which read "repost from" in
  Russian.
\<close>

definition repost_ot :: string where
  "repost_ot =
     [CHR 0xD0, CHR 0xA0, CHR 0xD0, CHR 0xB5, CHR 0xD0, CHR 0xBF, CHR 0xD0, CHR 0xBE,
      CHR 0xD1, CHR 0x81, CHR 0xD1, CHR 0x82, CHR 0x20,
      CHR 0xD0, CHR 0xBE, CHR 0xD1, CHR 0x82, CHR 0x20]"

definition original_channel_link :: "tg_client \<Rightarrow> tg_message \<Rightarrow> error + string option" where
  "original_channel_link client message =
     (case forward message of
        None \<Rightarrow> Inr None
      | Some fwd \<Rightarrow>
          (if is_channel fwd then
             (case from_id_channel_id fwd of
                None \<Rightarrow> Inl AttributeError
              | Some channel_id \<Rightarrow>
                  (case get_entity client (By_id channel_id) of
                     None \<Rightarrow> Inl RequestError
                   | Some channel \<Rightarrow>
                       Inr (Some (''https://t.me/'' @ format_str (username channel) @ ''/''
                                  @ format_int (channel_post fwd)))))
           else
             (case from_name fwd of
                None \<Rightarrow> Inr None
              | Some name \<Rightarrow> if name \<noteq> [] then Inr (Some (repost_ot @ name)) else Inr None)))"

definition links_in_post :: "string option \<Rightarrow> json" where
  "links_in_post text_opt =
     (case text_opt of
        None \<Rightarrow> JNull
      | Some t \<Rightarrow>
          (if t \<noteq> [] then
             (let found = findall [] t in if found \<noteq> [] then JStr (join '', '' found) else JNull)
           else JNull))"

text \<open>The body of the loop over the messages, for a message that is not skipped.\<close>

definition message_info :: "tg_client \<Rightarrow> string \<Rightarrow> tg_message \<Rightarrow> error + post" where
  "message_info client channel_link message =
     (case original_channel_link client message of
        Inl e \<Rightarrow> Inl e
      | Inr link \<Rightarrow>
          (case message_date message of
             None \<Rightarrow> Inl AttributeError
           | Some d \<Rightarrow>
               Inr [(Kanal, JStr channel_link),
                    (Post, JStr (channel_link @ ''/'' @ str_int (message_id message))),
                    (Tekst_posta, json_of_str (message_text message)),
                    (Data_vremya, JStr d),
                    (Reaktsii, JInt (case reactions message of None \<Rightarrow> 0 | Some rs \<Rightarrow> sum_list rs)),
                    (Kommentarii, JInt (case replies message of None \<Rightarrow> 0 | Some n \<Rightarrow> n)),
                    (Prosmotry, json_of_int (views message)),
                    (Kolichestvo_repostov, json_of_int (forwards message)),
                    (Ssylka_na_originalnyy_post,
                       JStr (case link of None \<Rightarrow> [] | Some l \<Rightarrow> if l \<noteq> [] then l else [])),
                    (Ssylka_v_poste, links_in_post (message_text message))]))"

text \<open>
  The loop over the messages of one channel, inside the \<open>try\<close>: an exception ends it,
  and the records appended before stay in the list.
\<close>

fun messages_loop ::
  "tg_client \<Rightarrow> string \<Rightarrow> tg_message list \<Rightarrow> post list \<Rightarrow> post list \<times> error option" where
  "messages_loop client channel_link [] acc = (acc, None)"
| "messages_loop client channel_link (message # messages) acc =
     (if is_service message \<or> (case grouped_id message of None \<Rightarrow> False | Some g \<Rightarrow> g \<noteq> 0)
      then messages_loop client channel_link messages acc
      else case message_info client channel_link message of
             Inl e \<Rightarrow> (acc, Some e)
           | Inr info \<Rightarrow> messages_loop client channel_link messages (acc @ [info]))"

fun tg_posts_loop ::
  "tg_client \<Rightarrow> string list \<Rightarrow> post list \<Rightarrow> report list \<Rightarrow> post list \<times> report list" where
  "tg_posts_loop client [] acc out = (acc, out)"
| "tg_posts_loop client (channel_link # channel_links) acc out =
     (case get_entity client (By_link channel_link) of
        None \<Rightarrow> tg_posts_loop client channel_links acc (out @ [Printed_channel_error channel_link])
      | Some channel \<Rightarrow>
          (case get_messages client channel of
             None \<Rightarrow>
               tg_posts_loop client channel_links acc (out @ [Printed_channel_error channel_link])
           | Some messages \<Rightarrow>
               (case messages_loop client channel_link messages acc of
                  (acc', None) \<Rightarrow> tg_posts_loop client channel_links acc' out
                | (acc', Some e) \<Rightarrow>
                    tg_posts_loop client channel_links acc'
                      (out @ [Printed_channel_error channel_link]))))"

definition tg_posts_info_list :: "tg_client \<Rightarrow> string list \<Rightarrow> post list \<times> report list" where
  "tg_posts_info_list client channel_links = tg_posts_loop client channel_links [] []"

text \<open>
  \<open>tg_channels_info_list\<close>: \<open>now\<close> is the formatted clock reading taken while a link is
  processed.
\<close>

fun tg_channels_loop ::
  "tg_client \<Rightarrow> (string \<Rightarrow> string) \<Rightarrow> string list \<Rightarrow> post list \<Rightarrow> report list
     \<Rightarrow> post list \<times> report list" where
  "tg_channels_loop client now [] acc out = (acc, out)"
| "tg_channels_loop client now (channel_link # channel_links) acc out =
     (case get_full_channel client channel_link of
        None \<Rightarrow>
          tg_channels_loop client now channel_links acc
            (out @ [Printed_channel_error channel_link])
      | Some subscribers_count \<Rightarrow>
          tg_channels_loop client now channel_links
            (acc @ [[(Kanal, JStr channel_link), (Data_vremya, JStr (now channel_link)),
                     (Kolichestvo_podpischikov, subscribers_count)]])
            out)"

definition tg_channels_info_list ::
  "tg_client \<Rightarrow> (string \<Rightarrow> string) \<Rightarrow> string list \<Rightarrow> post list \<times> report list" where
  "tg_channels_info_list client now channel_links = tg_channels_loop client now channel_links [] []"

section \<open>VkPostsParser\<close>

text \<open>Operations of Python on a decoded JSON value.\<close>

text \<open>\<open>v.get(k)\<close>: only a dict has the method; a missing key gives \<open>None\<close>.\<close>

fun get :: "json \<Rightarrow> string \<Rightarrow> error + json" where
  "get (JObj kvs) k = (case map_of kvs k of None \<Rightarrow> Inr JNull | Some v \<Rightarrow> Inr v)"
| "get _ k = Inl AttributeError"

text \<open>\<open>v[k]\<close> with a string key.\<close>

fun subscript :: "json \<Rightarrow> string \<Rightarrow> error + json" where
  "subscript (JObj kvs) k = (case map_of kvs k of None \<Rightarrow> Inl KeyError | Some v \<Rightarrow> Inr v)"
| "subscript _ k = Inl TypeError"

text \<open>\<open>v[0]\<close> and \<open>v[-1]\<close>.\<close>

fun first_item :: "json \<Rightarrow> error + json" where
  "first_item (JArr xs) = (case xs of [] \<Rightarrow> Inl IndexError | x # _ \<Rightarrow> Inr x)"
| "first_item (JStr s) = (case s of [] \<Rightarrow> Inl IndexError | c # _ \<Rightarrow> Inr (JStr [c]))"
| "first_item (JObj kvs) = Inl KeyError"
| "first_item _ = Inl TypeError"

fun last_item :: "json \<Rightarrow> error + json" where
  "last_item (JArr xs) = (if xs = [] then Inl IndexError else Inr (last xs))"
| "last_item (JStr s) = (if s = [] then Inl IndexError else Inr (JStr [last s]))"
| "last_item (JObj kvs) = Inl KeyError"
| "last_item _ = Inl TypeError"

text \<open>\<open>for post in data\<close>: what the loop runs over.\<close>

fun iterate :: "json \<Rightarrow> error + json list" where
  "iterate (JArr xs) = Inr xs"
| "iterate (JObj kvs) = Inr (map (\<lambda>kv. JStr (fst kv)) kvs)"
| "iterate (JStr s) = Inr (map (\<lambda>c. JStr [c]) s)"
| "iterate _ = Inl TypeError"

text \<open>
  The library calls of the VK parser: the HTTP request for the wall of a domain, the
  search of \<open>link_pattern\<close>, the formatting of a timestamp, and the \<open>repr\<close> that an
  f-string prints for a list or a dict.
\<close>

datatype http_response =
    Http_raises
  | Http nat "json option"    \<comment> \<open>status code; the decoded body, none when it is not JSON\<close>

record vk_env =
  wall_get :: "string \<Rightarrow> http_response"
  link_pattern :: "string \<Rightarrow> string list"
  strftime :: "json \<Rightarrow> error + string"
  repr :: "json \<Rightarrow> string"

definition format_json :: "vk_env \<Rightarrow> json \<Rightarrow> string" where
  "format_json env v =
     (case v of
        JNull \<Rightarrow> ''None''
      | JBool b \<Rightarrow> (if b then ''True'' else ''False'')
      | JInt i \<Rightarrow> str_int i
      | JStr s \<Rightarrow> s
      | _ \<Rightarrow> repr env v)"

text \<open>
  \<open>_get_vk_wall\<close>: \<open>sys.exit\<close> is not an \<open>Exception\<close> and leaves the function; any other
  failure is logged, and the function then returns \<open>None\<close>.
\<close>

definition get_vk_wall :: "vk_env \<Rightarrow> string \<Rightarrow> (error + json) \<times> report list" where
  "get_vk_wall env domain =
     (case wall_get env domain of
        Http_raises \<Rightarrow> (Inr JNull, [Logged_wall_error])
      | Http status_code body \<Rightarrow>
          (if status_code \<noteq> 200 then (Inl SystemExit, [])
           else case body of
                  None \<Rightarrow> (Inr JNull, [Logged_wall_error])
                | Some j \<Rightarrow>
                    (case subscript j ''response'' of
                       Inl e \<Rightarrow> (Inr JNull, [Logged_wall_error])
                     | Inr r \<Rightarrow>
                         (case subscript r ''items'' of
                            Inl e \<Rightarrow> (Inr JNull, [Logged_wall_error])
                          | Inr data \<Rightarrow> (Inr data, [])))))"

text \<open>
  \<open>vk_domain_pattern.search(link).group(1)\<close>: the pattern takes what follows the last
  \<open>vk.com/\<close> up to the end of the text, which must hold no newline; without a match
  \<open>search\<close> returns \<open>None\<close> and \<open>group\<close> raises.
\<close>

fun after_last :: "string \<Rightarrow> string \<Rightarrow> string option" where
  "after_last pat [] = None"
| "after_last pat (c # cs) =
     (case after_last pat cs of
        Some r \<Rightarrow> Some r
      | None \<Rightarrow> literal pat (c # cs))"

definition vk_domain :: "string \<Rightarrow> error + string" where
  "vk_domain link =
     (case after_last ''vk.com/'' link of
        None \<Rightarrow> Inl AttributeError
      | Some d \<Rightarrow> if CHR 0x0A \<in> set d then Inl AttributeError else Inr d)"

text \<open>The repost part of the loop body: original text, repost text and original URL.\<close>

definition copy_history :: "vk_env \<Rightarrow> json \<Rightarrow> error + (json \<times> json \<times> json)" where
  "copy_history env post =
     (case get post ''copy_history'' of
        Inl e \<Rightarrow> Inl e
      | Inr h \<Rightarrow>
          (if truthy h then
             (case last_item h of
                Inl e \<Rightarrow> Inl e
              | Inr original_post \<Rightarrow>
                  (case get original_post ''text'' of
                     Inl e \<Rightarrow> Inl e
                   | Inr original_post_text \<Rightarrow>
                       (case get post ''text'' of
                          Inl e \<Rightarrow> Inl e
                        | Inr repost_text \<Rightarrow>
                            (case subscript original_post ''owner_id'' of
                               Inl e \<Rightarrow> Inl e
                             | Inr owner \<Rightarrow>
                                 (case subscript original_post ''id'' of
                                    Inl e \<Rightarrow> Inl e
                                  | Inr i \<Rightarrow>
                                      Inr (original_post_text, repost_text,
                                           JStr (''vk.com/wall'' @ format_json env owner @ ''_''
                                                 @ format_json env i)))))))
           else Inr (JNull, JNull, JNull)))"

text \<open>The text of the post, taken from the description of a leading video when empty.\<close>

definition post_text :: "json \<Rightarrow> error + json" where
  "post_text post =
     (case get post ''text'' of
        Inl e \<Rightarrow> Inl e
      | Inr t \<Rightarrow>
          (if \<not> truthy t then
             (case get post ''attachments'' of
                Inl e \<Rightarrow> Inl e
              | Inr atts \<Rightarrow>
                  (if truthy atts then
                     (case first_item atts of
                        Inl e \<Rightarrow> Inl e
                      | Inr att \<Rightarrow>
                          (case get att ''type'' of
                             Inl e \<Rightarrow> Inl e
                           | Inr ty \<Rightarrow>
                               (if ty = JStr ''video'' then
                                  (case subscript att ''video'' of
                                     Inl e \<Rightarrow> Inl e
                                   | Inr video \<Rightarrow> get video ''description'')
                                else Inr t)))
                   else Inr t))
           else Inr t))"

text \<open>\<open>re.findall(link_pattern, v)\<close> for a truthy \<open>v\<close>; nothing is searched otherwise.\<close>

definition found_links :: "vk_env \<Rightarrow> json \<Rightarrow> error + string list" where
  "found_links env v =
     (if truthy v then (case v of JStr s \<Rightarrow> Inr (link_pattern env s) | _ \<Rightarrow> Inl TypeError)
      else Inr [])"

definition vk_links_in_post :: "vk_env \<Rightarrow> json \<Rightarrow> json \<Rightarrow> json \<Rightarrow> error + json" where
  "vk_links_in_post env text_of_post original_post_text repost_text =
     (if truthy text_of_post \<or> truthy original_post_text \<or> truthy repost_text then
        (case found_links env text_of_post of
           Inl e \<Rightarrow> Inl e
         | Inr l1 \<Rightarrow>
             (case found_links env original_post_text of
                Inl e \<Rightarrow> Inl e
              | Inr l2 \<Rightarrow>
                  (case found_links env repost_text of
                     Inl e \<Rightarrow> Inl e
                   | Inr l3 \<Rightarrow>
                       (let links_collector = l1 @ l2 @ l3 in
                        Inr (if links_collector \<noteq> [] then JStr (join '', '' links_collector)
                             else JNull)))))
      else Inr JNull)"

text \<open>
  An engagement counter: \<open>post[name].get("count") if post.get(name) else 0\<close>.
\<close>

definition counter :: "json \<Rightarrow> string \<Rightarrow> error + json" where
  "counter post name =
     (case get post name of
        Inl e \<Rightarrow> Inl e
      | Inr obj \<Rightarrow>
          (if truthy obj then
             (case subscript post name of Inl e \<Rightarrow> Inl e | Inr obj' \<Rightarrow> get obj' ''count'')
           else Inr (JInt 0)))"

text \<open>\<open>vk.com/wall{post["owner_id"]}_{post["id"]}\<close>.\<close>

definition wall_link :: "vk_env \<Rightarrow> json \<Rightarrow> error + string" where
  "wall_link env post =
     (case subscript post ''owner_id'' of
        Inl e \<Rightarrow> Inl e
      | Inr owner \<Rightarrow>
          (case subscript post ''id'' of
             Inl e \<Rightarrow> Inl e
           | Inr i \<Rightarrow> Inr (''vk.com/wall'' @ format_json env owner @ ''_'' @ format_json env i)))"

text \<open>The dict display inside the \<open>try\<close> of the loop body.\<close>

definition post_info ::
  "vk_env \<Rightarrow> string \<Rightarrow> json \<Rightarrow> json \<Rightarrow> json \<Rightarrow> json \<Rightarrow> json \<Rightarrow> json \<Rightarrow> error + post" where
  "post_info env link post text_of_post original_post_text repost_text original_post_url links =
     (case wall_link env post of
        Inl e \<Rightarrow> Inl e
      | Inr wall \<Rightarrow>
     (case subscript post ''date'' of
        Inl e \<Rightarrow> Inl e
      | Inr date \<Rightarrow>
     (case strftime env date of
        Inl e \<Rightarrow> Inl e
      | Inr date_time \<Rightarrow>
     (case counter post ''likes'' of
        Inl e \<Rightarrow> Inl e
      | Inr likes \<Rightarrow>
     (case counter post ''reposts'' of
        Inl e \<Rightarrow> Inl e
      | Inr reposts \<Rightarrow>
     (case counter post ''comments'' of
        Inl e \<Rightarrow> Inl e
      | Inr comments \<Rightarrow>
     (case counter post ''views'' of
        Inl e \<Rightarrow> Inl e
      | Inr post_views \<Rightarrow>
          Inr [(Gruppa, JStr link),
               (Post, JStr wall),
               (Tekst_originalnogo_posta,
                  JStr (CHR 0x27 # format_json env
                          (if truthy original_post_text then original_post_text else text_of_post))),
               (Data_vremya, JStr date_time),
               (Layki, likes),
               (Reposty, reposts),
               (Kommentarii, comments),
               (Prosmotry, post_views),
               (Tekst_reposta, repost_text),
               (Ssylka_na_originalnyy_post, original_post_url),
               (Ssylka_v_poste, links)])))))))"

text \<open>
  The loop over the posts of one wall. An exception before the \<open>try\<close> leaves the loop;
  one inside it is logged with the post's link, and building that link again may raise.
\<close>

fun posts_loop ::
  "vk_env \<Rightarrow> string \<Rightarrow> json list \<Rightarrow> post list \<Rightarrow> report list
     \<Rightarrow> (error + post list) \<times> report list" where
  "posts_loop env link [] acc out = (Inr acc, out)"
| "posts_loop env link (post # data) acc out =
     (case copy_history env post of
        Inl e \<Rightarrow> (Inl e, out)
      | Inr (original_post_text, repost_text, original_post_url) \<Rightarrow>
     (case post_text post of
        Inl e \<Rightarrow> (Inl e, out)
      | Inr text_of_post \<Rightarrow>
     (case vk_links_in_post env text_of_post original_post_text repost_text of
        Inl e \<Rightarrow> (Inl e, out)
      | Inr links \<Rightarrow>
     (case post_info env link post text_of_post original_post_text repost_text
             original_post_url links of
        Inr info \<Rightarrow> posts_loop env link data (acc @ [info]) out
      | Inl e \<Rightarrow>
          (case wall_link env post of
             Inl e' \<Rightarrow> (Inl e', out)
           | Inr wall \<Rightarrow> posts_loop env link data acc (out @ [Logged_post_error wall]))))))"

text \<open>The loop of \<open>vk_posts_info_list\<close> over the links.\<close>

fun vk_links_loop ::
  "vk_env \<Rightarrow> string list \<Rightarrow> post list \<Rightarrow> report list \<Rightarrow> (error + post list) \<times> report list" where
  "vk_links_loop env [] acc out = (Inr acc, out)"
| "vk_links_loop env (link # links) acc out =
     (case vk_domain link of
        Inl e \<Rightarrow> (Inl e, out)
      | Inr domain \<Rightarrow>
          (case get_vk_wall env domain of
             (Inl e, logged) \<Rightarrow> (Inl e, out @ logged)
           | (Inr data, logged) \<Rightarrow>
               (case iterate data of
                  Inl e \<Rightarrow> (Inl e, out @ logged)
                | Inr items \<Rightarrow>
                    (case posts_loop env link items acc (out @ logged) of
                       (Inl e, out') \<Rightarrow> (Inl e, out')
                     | (Inr acc', out') \<Rightarrow> vk_links_loop env links acc' out'))))"

definition vk_posts_info_list :: "vk_env \<Rightarrow> string list \<Rightarrow> (error + post list) \<times> report list" where
  "vk_posts_info_list env links = vk_links_loop env links [] []"

section \<open>BaseNotionParser: the paginated reader\<close>

text \<open>
  The decoded answer of one query: \<open>results\<close> is absent in an error answer, and reading
  it then raises; \<open>has_more\<close> and \<open>next_cursor\<close> are read with \<open>get\<close>, so they may be
  absent.
\<close>

record 'a notion_data =
  results :: "'a list option"
  has_more :: "bool option"
  next_cursor :: "string option"

text \<open>
  What an observer of the generator sees, in order: a request with its payload (the start
  cursor, if any) and the items handed out.
\<close>

datatype 'a event =
    Request "string option"
  | Yield 'a

text \<open>The payload: a cursor is sent only when it is truthy.\<close>

definition payload :: "string option \<Rightarrow> string option" where
  "payload cursor = (case cursor of None \<Rightarrow> None | Some c \<Rightarrow> if c \<noteq> [] then Some c else None)"

text \<open>
  The \<open>while has_more\<close> loop. \<open>query\<close> is the request: it raises or answers with decoded
  data. The loop may run forever, which is the value \<open>None\<close>; an exception ends the
  generator after the events seen so far.
\<close>

partial_function (option) batch_loop ::
  "(string option \<Rightarrow> error + 'a notion_data) \<Rightarrow> string option \<Rightarrow> 'a event list
     \<Rightarrow> ('a event list \<times> error option) option" where
  "batch_loop query cursor seen =
     (case query (payload cursor) of
        Inl e \<Rightarrow> Some (seen @ [Request (payload cursor)], Some e)
      | Inr data \<Rightarrow>
          (case results data of
             None \<Rightarrow> Some (seen @ [Request (payload cursor)], Some KeyError)
           | Some rs \<Rightarrow>
               (if has_more data = Some True
                then batch_loop query (next_cursor data)
                       (seen @ Request (payload cursor) # map Yield rs)
                else Some (seen @ Request (payload cursor) # map Yield rs, None))))"

definition get_records_by_batch ::
  "(string option \<Rightarrow> error + 'a notion_data) \<Rightarrow> ('a event list \<times> error option) option" where
  "get_records_by_batch query = batch_loop query None []"

text \<open>The items a consumer of the generator receives.\<close>

fun yielded :: "'a event list \<Rightarrow> 'a list" where
  "yielded [] = []"
| "yielded (Request p # es) = yielded es"
| "yielded (Yield x # es) = x # yielded es"

text \<open>
  The run of a source, told without the loop: the cursor held at the start of the
  \<open>k\<close>-th iteration, the answer to the \<open>k\<close>-th request, and the events of that iteration.
\<close>

fun cursor_at :: "(string option \<Rightarrow> error + 'a notion_data) \<Rightarrow> nat \<Rightarrow> string option" where
  "cursor_at query 0 = None"
| "cursor_at query (Suc k) =
     (case query (payload (cursor_at query k)) of
        Inl e \<Rightarrow> None
      | Inr data \<Rightarrow> next_cursor data)"

definition page_at :: "(string option \<Rightarrow> error + 'a notion_data) \<Rightarrow> nat \<Rightarrow> error + 'a notion_data" where
  "page_at query k = query (payload (cursor_at query k))"

definition page_items :: "(string option \<Rightarrow> error + 'a notion_data) \<Rightarrow> nat \<Rightarrow> 'a list" where
  "page_items query k =
     (case page_at query k of
        Inl e \<Rightarrow> []
      | Inr data \<Rightarrow> (case results data of None \<Rightarrow> [] | Some rs \<Rightarrow> rs))"

definition page_events :: "(string option \<Rightarrow> error + 'a notion_data) \<Rightarrow> nat \<Rightarrow> 'a event list" where
  "page_events query k = Request (payload (cursor_at query k)) # map Yield (page_items query k)"

text \<open>
  The \<open>k\<close>-th answer is a page: it has results, and it reports more data exactly when
  \<open>continues\<close> says so.
\<close>

definition is_page :: "(string option \<Rightarrow> error + 'a notion_data) \<Rightarrow> nat \<Rightarrow> bool \<Rightarrow> bool" where
  "is_page query k continues =
     (case page_at query k of
        Inl e \<Rightarrow> False
      | Inr data \<Rightarrow> results data \<noteq> None \<and> (has_more data = Some True) = continues)"

text \<open>A mock source with three pages of 10, 10 and 4 items and the cursors \<open>c1\<close>, \<open>c2\<close>.\<close>

definition three_pages :: "string option \<Rightarrow> error + nat notion_data" where
  "three_pages p =
     (if p = None then
        Inr \<lparr>results = Some [0, 1, 2, 3, 4, 5, 6, 7, 8, 9], has_more = Some True,
             next_cursor = Some ''c1''\<rparr>
      else if p = Some ''c1'' then
        Inr \<lparr>results = Some [10, 11, 12, 13, 14, 15, 16, 17, 18, 19], has_more = Some True,
             next_cursor = Some ''c2''\<rparr>
      else if p = Some ''c2'' then
        Inr \<lparr>results = Some [20, 21, 22, 23], has_more = Some False, next_cursor = None\<rparr>
      else Inl RequestError)"

section \<open>Test data\<close>

text \<open>The value of a column in what a normaliser returns; none when it raised.\<close>

definition column :: "error + post \<Rightarrow> key \<Rightarrow> json option" where
  "column r k = (case r of Inl e \<Rightarrow> None | Inr info \<Rightarrow> map_of info k)"

text \<open>An upstream object of a VK post is absent, null or otherwise falsy.\<close>

definition falsy_at :: "json \<Rightarrow> string \<Rightarrow> bool" where
  "falsy_at post name = (case get post name of Inl e \<Rightarrow> False | Inr obj \<Rightarrow> \<not> truthy obj)"

text \<open>
  Two Telegram messages of the channel \<open>d\<close>: a forward from a user named \<open>X\<close>, without
  reactions, replies, views or forwards, and a forward of post 5 of the channel with
  identifier 100, whose user name is \<open>c\<close>.
\<close>

definition forwarded_from_x :: tg_message where
  "forwarded_from_x =
     \<lparr>is_service = False, grouped_id = None, reactions = None, replies = None,
      forward = Some \<lparr>is_channel = False, from_id_channel_id = None, channel_post = None,
                      from_name = Some ''X''\<rparr>,
      message_text = Some ''hi'', message_id = 7, message_date = Some ''2024-01-01 00:00:00'',
      views = None, forwards = None\<rparr>"

definition forwarded_from_c :: tg_message where
  "forwarded_from_c =
     \<lparr>is_service = False, grouped_id = None, reactions = Some [2, 3], replies = Some 4,
      forward = Some \<lparr>is_channel = True, from_id_channel_id = Some 100, channel_post = Some 5,
                      from_name = None\<rparr>,
      message_text = Some ''see http://a.co and [link](https://b.co)'', message_id = 8,
      message_date = Some ''2024-01-01 00:00:00'',
      views = Some 10, forwards = Some 1\<rparr>"

definition client_c :: tg_client where
  "client_c =
     \<lparr>get_entity = (\<lambda>r. if r = By_id 100 then Some \<lparr>username = Some ''c''\<rparr>
                           else if r = By_link ''https://t.me/d'' then Some \<lparr>username = Some ''d''\<rparr>
                           else None),
      get_messages = (\<lambda>e. if username e = Some ''d'' then Some [forwarded_from_x, forwarded_from_c]
                             else None),
      get_full_channel = (\<lambda>l. if l = ''https://t.me/d'' then Some (JInt 42) else None)\<rparr>"

text \<open>
  A VK post without engagement objects, and an environment where the request for the wall
  of the domain \<open>a\<close> raises and every other wall holds that post.
\<close>

definition wall_post :: json where
  "wall_post =
     JObj [(''owner_id'', JInt (- 1)), (''id'', JInt 2), (''date'', JInt 0), (''text'', JStr ''hi'')]"

definition env_a_raises :: vk_env where
  "env_a_raises =
     \<lparr>wall_get = (\<lambda>domain. if domain = ''a'' then Http_raises
                             else Http 200 (Some (JObj [(''response'',
                                    JObj [(''items'', JArr [wall_post])])]))),
      link_pattern = (\<lambda>s. []),
      strftime = (\<lambda>j. Inr ''1970-01-01 00:00:00''),
      repr = (\<lambda>j. ''?'')\<rparr>"




section \<open>Properties of the upsert\<close>

lemma split_posts_Inr:
  "split_posts ex posts upd ins = Inr (u, i) \<Longrightarrow>
     u = upd @ filter (\<lambda>p. identity_in p ex) posts \<and>
     i = ins @ filter (\<lambda>p. \<not> identity_in p ex) posts"
proof (induction posts arbitrary: upd ins)
  case Nil
  then show ?case by simp
next
  case (Cons p ps)
  from Cons.prems obtain v where v: "map_of p Post = Some v"
    by (cases "map_of p Post") (simp_all add: getitem_def)
  show ?case
  proof (cases "is_in v ex")
    case True
    with v have id: "identity_in p ex" by (simp add: identity_in_def)
    from Cons.prems v True have "split_posts ex ps (upd @ [p]) ins = Inr (u, i)"
      by (simp add: getitem_def)
    from Cons.IH [OF this] id show ?thesis by simp
  next
    case False
    with v have id: "\<not> identity_in p ex" by (simp add: identity_in_def)
    from Cons.prems v False have "split_posts ex ps upd (ins @ [p]) = Inr (u, i)"
      by (simp add: getitem_def)
    from Cons.IH [OF this] id show ?thesis by simp
  qed
qed

lemma split_posts_total:
  "\<forall>p \<in> set posts. map_of p Post \<noteq> None \<Longrightarrow> \<exists>u i. split_posts ex posts upd ins = Inr (u, i)"
  by (induction posts arbitrary: upd ins) (auto simp: getitem_def)

text \<open>
  Claim C1. When every record carries the identity key, the partition loop of
  \<open>run_google_upsert\<close> returns two lists: the records whose identity occurs in the
  existing identities, and the others, each in input order. Every record is in exactly
  one of them, and the two lengths add up to the length of the input.
\<close>

theorem partition_complete:
  assumes "\<forall>p \<in> set posts. map_of p Post \<noteq> None"
  shows "\<exists>upd ins. split_posts ex posts [] [] = Inr (upd, ins)
           \<and> upd = filter (\<lambda>p. identity_in p ex) posts
           \<and> ins = filter (\<lambda>p. \<not> identity_in p ex) posts
           \<and> (\<forall>p \<in> set posts. (p \<in> set upd) = identity_in p ex \<and> (p \<in> set ins) = (\<not> identity_in p ex))
           \<and> length upd + length ins = length posts"
proof -
  from split_posts_total [OF assms] obtain u i where r: "split_posts ex posts [] [] = Inr (u, i)"
    by blast
  from split_posts_Inr [OF r] have u: "u = filter (\<lambda>p. identity_in p ex) posts"
    and i: "i = filter (\<lambda>p. \<not> identity_in p ex) posts" by simp_all
  have "length u + length i = length posts"
    unfolding u i by (rule sum_length_filter_compl)
  with r u i show ?thesis by auto
qed

theorem partition_complete_witness:
  "\<exists>upd ins. split_posts [''a''] [[(Post, JStr ''a'')], [(Post, JStr ''b'')], [(Post, JNull)]] [] [] = Inr (upd, ins)
     \<and> upd = [[(Post, JStr ''a'')]] \<and> ins = [[(Post, JStr ''b'')], [(Post, JNull)]]
     \<and> length upd + length ins = 3"
  using partition_complete [of "[[(Post, JStr ''a'')], [(Post, JStr ''b'')], [(Post, JNull)]]" "[''a'']"]
  by (simp add: identity_in_def)









text \<open>
  Claim C3, as stated, fails for the empty string: when the identity column holds an empty
  cell text, a record whose identity is the empty string is matched and goes to the update
  set.
\<close>

theorem empty_identity_matched:
  "split_posts (existing_of_response (Response (Some [['''']]))) [[(Post, JStr '''')]] [] []
     = Inr ([[(Post, JStr '''')]], [])"
  by (simp add: existing_of_response_def getitem_def)

text \<open>
  Claim C3, amended. A record whose identity is null is never matched: it goes to the insert
  set whatever the existing identities are. A record whose identity is the empty string goes
  to the insert set exactly when the empty string is not among the existing identities.
\<close>

theorem null_identity_inserted:
  assumes "split_posts existing_posts posts_info_list [] [] = Inr (rows_to_update, rows_to_insert)"
    and "post \<in> set posts_info_list"
  shows "(getitem post Post = Inr JNull \<longrightarrow>
            post \<in> set rows_to_insert \<and> post \<notin> set rows_to_update)
       \<and> (getitem post Post = Inr (JStr '''') \<longrightarrow>
            (post \<in> set rows_to_insert \<and> post \<notin> set rows_to_update) = ('''' \<notin> set existing_posts))"
proof -
  from split_posts_Inr [OF assms(1)]
  have u: "rows_to_update = filter (\<lambda>p. identity_in p existing_posts) posts_info_list"
    and i: "rows_to_insert = filter (\<lambda>p. \<not> identity_in p existing_posts) posts_info_list"
    by simp_all
  have n: "getitem post Post = Inr JNull \<Longrightarrow> \<not> identity_in post existing_posts"
    by (auto simp: getitem_def identity_in_def split: option.splits)
  have e: "getitem post Post = Inr (JStr '''') \<Longrightarrow>
             identity_in post existing_posts = ('''' \<in> set existing_posts)"
    by (auto simp: getitem_def identity_in_def split: option.splits)
  from n e show ?thesis unfolding u i using assms(2) by auto
qed

theorem null_identity_inserted_witness:
  "(getitem [(Post, JNull)] Post = Inr JNull \<and>
      [(Post, JNull)] \<in> set [[(Post, JNull)], [(Post, JStr '''')]] \<and> [(Post, JNull)] \<notin> set [])
   \<and> (getitem [(Post, JStr '''')] Post = Inr (JStr '''') \<and>
      [(Post, JStr '''')] \<in> set [[(Post, JNull)], [(Post, JStr '''')]] \<and> '''' \<notin> set [''a''])"
  using null_identity_inserted
    [of "[''a'']" "[[(Post, JStr ''a'')], [(Post, JNull)], [(Post, JStr '''')]]"
        "[[(Post, JStr ''a'')]]" "[[(Post, JNull)], [(Post, JStr '''')]]" "[(Post, JNull)]"]
    null_identity_inserted
    [of "[''a'']" "[[(Post, JStr ''a'')], [(Post, JNull)], [(Post, JStr '''')]]"
        "[[(Post, JStr ''a'')]]" "[[(Post, JNull)], [(Post, JStr '''')]]" "[(Post, JStr '''')]"]
  by (simp add: getitem_def)






section \<open>Properties of the paginated reader\<close>

lemma batch_loop_from:
  "\<forall>k<n. is_page query (j + k) True \<Longrightarrow> is_page query (j + n) False \<Longrightarrow>
     batch_loop query (cursor_at query j) seen
       = Some (seen @ concat (map (page_events query) [j..<Suc (j + n)]), None)"
proof (induction n arbitrary: j seen)
  case 0
  then obtain data rs where d: "query (payload (cursor_at query j)) = Inr data"
      "results data = Some rs" "has_more data \<noteq> Some True"
    by (auto simp: is_page_def page_at_def split: sum.splits)
  then have "page_events query j = Request (payload (cursor_at query j)) # map Yield rs"
    by (simp add: page_events_def page_items_def page_at_def)
  with d show ?case
    by (subst batch_loop.simps) simp
next
  case (Suc n)
  from Suc.prems(1) have "is_page query (j + 0) True" by blast
  then obtain data rs where d: "query (payload (cursor_at query j)) = Inr data"
      "results data = Some rs" "has_more data = Some True"
    by (auto simp: is_page_def page_at_def split: sum.splits)
  then have ev: "page_events query j = Request (payload (cursor_at query j)) # map Yield rs"
    by (simp add: page_events_def page_items_def page_at_def)
  from d have c: "cursor_at query (Suc j) = next_cursor data" by simp
  have p1: "\<forall>k<n. is_page query (Suc j + k) True"
  proof (intro allI impI)
    fix k assume "k < n"
    then have "Suc k < Suc n" by simp
    with Suc.prems(1) have "is_page query (j + Suc k) True" by blast
    then show "is_page query (Suc j + k) True" by simp
  qed
  from Suc.prems(2) have p2: "is_page query (Suc j + n) False" by simp
  have "batch_loop query (cursor_at query j) seen
          = batch_loop query (cursor_at query (Suc j)) (seen @ page_events query j)"
    using d ev c by (subst batch_loop.simps) simp
  also have "\<dots> = Some ((seen @ page_events query j)
                      @ concat (map (page_events query) [Suc j..<Suc (Suc j + n)]), None)"
    using Suc.IH [OF p1 p2] .
  also have "(seen @ page_events query j) @ concat (map (page_events query) [Suc j..<Suc (Suc j + n)])
               = seen @ concat (map (page_events query) [j..<Suc (j + Suc n)])"
    by (simp add: upt_conv_Cons del: upt_Suc)
  finally show ?case .
qed

lemma yielded_append: "yielded (xs @ ys) = yielded xs @ yielded ys"
  by (induction xs rule: yielded.induct) simp_all

lemma yielded_map_Yield: "yielded (map Yield xs) = xs"
  by (induction xs) simp_all

lemma yielded_pages:
  "yielded (concat (map (page_events query) ks)) = concat (map (page_items query) ks)"
  by (induction ks) (simp_all add: yielded_append yielded_map_Yield page_events_def)

text \<open>
  Claim C7. Let the answers to the first \<open>n\<close> requests be pages that report more data and
  the answer to the next one a page that does not. Then the reader returns, without an
  exception; what it does is, for each page from the first to that one and in this order,
  one request followed at once by the items of its answer, and nothing after the page that
  reports no more data. So the consumer receives the items of the pages in page order, each
  once for every time it was fetched. The mock source with pages of 10, 10 and 4 items
  gives 24 items in order, all different.
\<close>

theorem pagination_complete:
  assumes "\<forall>k<n. is_page query k True" and "is_page query n False"
  shows "get_records_by_batch query = Some (concat (map (page_events query) [0..<Suc n]), None)
       \<and> yielded (concat (map (page_events query) [0..<Suc n]))
           = concat (map (page_items query) [0..<Suc n])"
proof -
  from assms have "batch_loop query (cursor_at query 0) []
       = Some ([] @ concat (map (page_events query) [0..<Suc (0 + n)]), None)"
    by (intro batch_loop_from) simp_all
  then have "get_records_by_batch query
       = Some (concat (map (page_events query) [0..<Suc n]), None)"
    by (simp add: get_records_by_batch_def)
  with yielded_pages [of query "[0..<Suc n]"] show ?thesis
    by blast
qed

theorem pagination_complete_witness:
  "\<exists>tr. get_records_by_batch three_pages = Some (tr, None)
      \<and> yielded tr = [0, 1, 2, 3, 4, 5, 6, 7, 8, 9, 10, 11, 12, 13, 14, 15, 16, 17, 18, 19,
                      20, 21, 22, 23]
      \<and> length (yielded tr) = 24 \<and> distinct (yielded tr)"
proof -
  have c1: "cursor_at three_pages (Suc 0) = Some ''c1''"
    by (simp add: three_pages_def payload_def)
  have c2: "cursor_at three_pages (Suc (Suc 0)) = Some ''c2''"
    by (simp add: three_pages_def payload_def)
  have p0: "is_page three_pages 0 True"
    by (simp add: is_page_def page_at_def three_pages_def payload_def)
  have p1: "is_page three_pages (Suc 0) True"
    unfolding is_page_def page_at_def c1 by (simp add: three_pages_def payload_def)
  have p2: "is_page three_pages 2 False"
    unfolding is_page_def page_at_def numeral_2_eq_2 c2 by (simp add: three_pages_def payload_def)
  have h: "\<forall>k<2. is_page three_pages k True"
    using p0 p1 by (simp add: numeral_2_eq_2 less_Suc_eq)
  have i0: "page_items three_pages 0 = [0, 1, 2, 3, 4, 5, 6, 7, 8, 9]"
    by (simp add: page_items_def page_at_def three_pages_def payload_def)
  have i1: "page_items three_pages (Suc 0) = [10, 11, 12, 13, 14, 15, 16, 17, 18, 19]"
    unfolding page_items_def page_at_def c1 by (simp add: three_pages_def payload_def)
  have i2: "page_items three_pages (Suc (Suc 0)) = [20, 21, 22, 23]"
    unfolding page_items_def page_at_def c2 by (simp add: three_pages_def payload_def)
  have u: "[0..<Suc 2] = [0, Suc 0, Suc (Suc 0)]"
    by (simp add: numeral_2_eq_2 upt_conv_Cons del: upt_Suc)
  from pagination_complete [OF h p2] show ?thesis
    unfolding u by (simp add: i0 i1 i2)
qed

section \<open>Properties of the normalisers\<close>

text \<open>
  Claim C8, as stated, fails on the placeholder: for a forward from a user named \<open>X\<close> the
  field holds the source's Cyrillic words followed by \<open>X\<close>, not the English text of the
  claim.
\<close>

theorem repost_placeholder_is_russian:
  "column (message_info client_c ''https://t.me/d'' forwarded_from_x) Ssylka_na_originalnyy_post
     = Some (JStr (repost_ot @ ''X''))
   \<and> repost_ot @ ''X'' \<noteq> ''Repost from X''"
  by (simp add: column_def message_info_def original_channel_link_def forwarded_from_x_def
        repost_ot_def)

text \<open>
  Claim C8, amended. For a forward from a non-channel source with a non-empty name, the
  field is the Cyrillic placeholder prefix \<open>repost_ot\<close> followed by the name. For a forward
  of post \<open>n\<close> of a channel that the client resolves to the user name \<open>c\<close>, the field is
  \<open>https://t.me/c/n\<close>; with \<open>c\<close> and 5 this is the text of the claim.
\<close>

theorem repost_reference:
  assumes "message_info client channel_link message = Inr info"
    and "forward message = Some fwd"
  shows "(\<not> is_channel fwd \<and> from_name fwd = Some name \<and> name \<noteq> [] \<longrightarrow>
            map_of info Ssylka_na_originalnyy_post = Some (JStr (repost_ot @ name)))
       \<and> (is_channel fwd \<and> from_id_channel_id fwd = Some channel_id
            \<and> get_entity client (By_id channel_id) = Some channel
            \<and> username channel = Some c \<and> channel_post fwd = Some n \<longrightarrow>
            map_of info Ssylka_na_originalnyy_post
              = Some (JStr (''https://t.me/'' @ c @ ''/'' @ str_int n)))"
  using assms
  by (auto simp: message_info_def original_channel_link_def format_str_def format_int_def
           split: sum.splits option.splits if_splits)

theorem repost_reference_witness:
  "column (message_info client_c ''https://t.me/d'' forwarded_from_x) Ssylka_na_originalnyy_post
     = Some (JStr (repost_ot @ ''X''))
   \<and> column (message_info client_c ''https://t.me/d'' forwarded_from_c) Ssylka_na_originalnyy_post
     = Some (JStr ''https://t.me/c/5'')"
proof -
  obtain ix where ix: "message_info client_c ''https://t.me/d'' forwarded_from_x = Inr ix"
    by (simp add: message_info_def original_channel_link_def forwarded_from_x_def)
  obtain ic where ic: "message_info client_c ''https://t.me/d'' forwarded_from_c = Inr ic"
    by (simp add: message_info_def original_channel_link_def forwarded_from_c_def client_c_def)
  have fx: "forward forwarded_from_x = Some \<lparr>is_channel = False, from_id_channel_id = None,
              channel_post = None, from_name = Some ''X''\<rparr>"
    by (simp add: forwarded_from_x_def)
  have fc: "forward forwarded_from_c = Some \<lparr>is_channel = True, from_id_channel_id = Some 100,
              channel_post = Some 5, from_name = None\<rparr>"
    by (simp add: forwarded_from_c_def)
  have five: "str_int 5 = ''5''"
    by (simp add: str_int_def digits.simps)
  have e: "get_entity client_c (By_id 100) = Some \<lparr>username = Some ''c''\<rparr>"
    by (simp add: client_c_def)
  from repost_reference [OF ix fx, of "''X''"]
  have rx: "map_of ix Ssylka_na_originalnyy_post = Some (JStr (repost_ot @ ''X''))"
    by simp
  from repost_reference [OF ic fc, of _ 100 "\<lparr>username = Some ''c''\<rparr>" "''c''" 5] e five
  have rc: "map_of ic Ssylka_na_originalnyy_post = Some (JStr ''https://t.me/c/5'')"
    by simp
  from rx rc show ?thesis
    by (simp add: ix ic column_def)
qed

text \<open>
  Claim C9. The matches of the Telegram pattern in the text of the claim, joined with a
  comma and a space, are the bare URL and then the URL inside the markdown link, without
  its brackets.
\<close>

theorem markdown_link_extraction:
  "join '', '' (findall [] ''see http://a.co and [link](https://b.co)'')
     = ''http://a.co, https://b.co''"
  by (simp add: tg_links_pattern_def markdown_url_def bare_url_def scheme_def is_space_def white_space_def)

text \<open>
  Claim C6, as stated, fails for the Telegram views and repost counts: a message without
  them gives a record whose two columns are null.
\<close>

theorem tg_views_null:
  "column (message_info client_c ''https://t.me/d'' forwarded_from_x) Prosmotry = Some JNull
   \<and> column (message_info client_c ''https://t.me/d'' forwarded_from_x) Kolichestvo_repostov
       = Some JNull"
  by (simp add: column_def message_info_def original_channel_link_def forwarded_from_x_def
        json_of_int_def)

lemma counter_falsy: "falsy_at post name \<Longrightarrow> counter post name = Inr (JInt 0)"
  by (auto simp: falsy_at_def counter_def split: sum.splits)

text \<open>
  Claim C6, amended. In a VK record, the likes, reposts, comments and views are 0 when the
  upstream object is absent (or otherwise falsy). In a Telegram record, the reactions are
  the sum of the reaction counts and the comments the number of replies, each 0 when the
  upstream object is absent, and never null; the views and the repost count are the
  message's own values, null when the message has none.
\<close>

theorem engagement_defaults:
  assumes "post_info env link post text_of_post original_post_text repost_text
             original_post_url links = Inr info"
    and "message_info client channel_link message = Inr tg_info"
  shows "(falsy_at post ''likes'' \<longrightarrow> map_of info Layki = Some (JInt 0))
       \<and> (falsy_at post ''reposts'' \<longrightarrow> map_of info Reposty = Some (JInt 0))
       \<and> (falsy_at post ''comments'' \<longrightarrow> map_of info Kommentarii = Some (JInt 0))
       \<and> (falsy_at post ''views'' \<longrightarrow> map_of info Prosmotry = Some (JInt 0))
       \<and> map_of tg_info Reaktsii
            = Some (JInt (case reactions message of None \<Rightarrow> 0 | Some rs \<Rightarrow> sum_list rs))
       \<and> map_of tg_info Kommentarii
            = Some (JInt (case replies message of None \<Rightarrow> 0 | Some n \<Rightarrow> n))
       \<and> map_of tg_info Prosmotry
            = Some (case views message of None \<Rightarrow> JNull | Some n \<Rightarrow> JInt n)
       \<and> map_of tg_info Kolichestvo_repostov
            = Some (case forwards message of None \<Rightarrow> JNull | Some n \<Rightarrow> JInt n)"
proof -
  from assms(1) obtain l r c v where
    cs: "counter post ''likes'' = Inr l" "counter post ''reposts'' = Inr r"
        "counter post ''comments'' = Inr c" "counter post ''views'' = Inr v"
    and m: "map_of info Layki = Some l" "map_of info Reposty = Some r"
        "map_of info Kommentarii = Some c" "map_of info Prosmotry = Some v"
    by (auto simp: post_info_def split: sum.splits)
  have vk: "(falsy_at post ''likes'' \<longrightarrow> map_of info Layki = Some (JInt 0))
       \<and> (falsy_at post ''reposts'' \<longrightarrow> map_of info Reposty = Some (JInt 0))
       \<and> (falsy_at post ''comments'' \<longrightarrow> map_of info Kommentarii = Some (JInt 0))
       \<and> (falsy_at post ''views'' \<longrightarrow> map_of info Prosmotry = Some (JInt 0))"
    using cs m by (auto dest: counter_falsy)
  from assms(2) have tg: "map_of tg_info Reaktsii
            = Some (JInt (case reactions message of None \<Rightarrow> 0 | Some rs \<Rightarrow> sum_list rs))
       \<and> map_of tg_info Kommentarii
            = Some (JInt (case replies message of None \<Rightarrow> 0 | Some n \<Rightarrow> n))
       \<and> map_of tg_info Prosmotry
            = Some (case views message of None \<Rightarrow> JNull | Some n \<Rightarrow> JInt n)
       \<and> map_of tg_info Kolichestvo_repostov
            = Some (case forwards message of None \<Rightarrow> JNull | Some n \<Rightarrow> JInt n)"
    by (auto simp: message_info_def json_of_int_def split: sum.splits option.splits)
  from vk tg show ?thesis by blast
qed

theorem engagement_defaults_witness:
  "falsy_at wall_post ''likes'' \<and> falsy_at wall_post ''reposts''
   \<and> falsy_at wall_post ''comments'' \<and> falsy_at wall_post ''views''
   \<and> column (post_info env_a_raises ''https://vk.com/b'' wall_post (JStr ''hi'') JNull JNull
                JNull JNull) Layki = Some (JInt 0)
   \<and> column (post_info env_a_raises ''https://vk.com/b'' wall_post (JStr ''hi'') JNull JNull
                JNull JNull) Prosmotry = Some (JInt 0)
   \<and> column (message_info client_c ''https://t.me/d'' forwarded_from_c) Reaktsii = Some (JInt 5)
   \<and> column (message_info client_c ''https://t.me/d'' forwarded_from_c) Kommentarii
       = Some (JInt 4)
   \<and> column (message_info client_c ''https://t.me/d'' forwarded_from_c) Prosmotry
       = Some (JInt 10)"
proof -
  obtain pinfo where p: "post_info env_a_raises ''https://vk.com/b'' wall_post (JStr ''hi'') JNull
      JNull JNull JNull = Inr pinfo"
    by (simp add: post_info_def wall_link_def wall_post_def env_a_raises_def counter_def)
  obtain ic where ic: "message_info client_c ''https://t.me/d'' forwarded_from_c = Inr ic"
    by (simp add: message_info_def original_channel_link_def forwarded_from_c_def client_c_def)
  have f: "falsy_at wall_post ''likes''" "falsy_at wall_post ''reposts''"
    "falsy_at wall_post ''comments''" "falsy_at wall_post ''views''"
    by (simp_all add: falsy_at_def wall_post_def)
  have m: "reactions forwarded_from_c = Some [2, 3]" "replies forwarded_from_c = Some 4"
    "views forwarded_from_c = Some 10"
    by (simp_all add: forwarded_from_c_def)
  from engagement_defaults [OF p ic] f m show ?thesis
    by (simp add: p ic column_def)
qed

section \<open>Properties of a whole run\<close>








text \<open>
  The Telegram loops isolate a failing link: a link that the client cannot resolve is
  printed with its name and skipped, and the records of the next link are produced.
\<close>

lemma tg_failure_isolated:
  "snd (tg_posts_info_list client_c [''https://t.me/gone'', ''https://t.me/d''])
     = [Printed_channel_error ''https://t.me/gone'']
   \<and> fst (tg_posts_info_list client_c [''https://t.me/gone'', ''https://t.me/d''])
     = fst (tg_posts_info_list client_c [''https://t.me/d''])
   \<and> tg_channels_info_list client_c (\<lambda>l. ''now'') [''https://t.me/gone'', ''https://t.me/d'']
     = ([[(Kanal, JStr ''https://t.me/d''), (Data_vremya, JStr ''now''),
          (Kolichestvo_podpischikov, JInt 42)]],
        [Printed_channel_error ''https://t.me/gone''])"
  by (simp add: tg_posts_info_list_def tg_channels_info_list_def client_c_def
        forwarded_from_x_def forwarded_from_c_def
        message_info_def original_channel_link_def links_in_post_def json_of_int_def
        json_of_str_def format_str_def format_int_def str_int_def digits.simps
        tg_links_pattern_def markdown_url_def bare_url_def scheme_def is_space_def white_space_def)

text \<open>
  Claim C5 at a failing input. The request for the wall of the first link raises:
  \<open>_get_vk_wall\<close> logs the error without the link and returns \<open>None\<close>, the loop over
  \<open>None\<close> raises, and the run ends without the record of the second link, which the
  second link alone gives.
\<close>

theorem vk_failure_aborts:
  "vk_posts_info_list env_a_raises [''https://vk.com/a'', ''https://vk.com/b'']
     = (Inl TypeError, [Logged_wall_error])
   \<and> vk_posts_info_list env_a_raises [''https://vk.com/b'']
     = (Inr [[(Gruppa, JStr ''https://vk.com/b''), (Post, JStr ''vk.com/wall-1_2''),
              (Tekst_originalnogo_posta, JStr (CHR 0x27 # ''hi'')),
              (Data_vremya, JStr ''1970-01-01 00:00:00''),
              (Layki, JInt 0), (Reposty, JInt 0), (Kommentarii, JInt 0), (Prosmotry, JInt 0),
              (Tekst_reposta, JNull), (Ssylka_na_originalnyy_post, JNull),
              (Ssylka_v_poste, JNull)]], [])"
  by (simp add: vk_posts_info_list_def env_a_raises_def wall_post_def vk_domain_def
        get_vk_wall_def copy_history_def post_text_def vk_links_in_post_def found_links_def
        post_info_def wall_link_def counter_def format_json_def str_int_def digits.simps)

end
